theory Spec2Isabelle
  imports Main "HOL-Library.Sublist"
begin

section \<open>The trip page: cached activities and the two calendar views\<close>

text \<open>
  The \<^verbatim>\<open>Trip\<close> component of \<^verbatim>\<open>src/activities.tsx\<close> reads the activities of a trip
  through a cached query and derives two lists from it: the group calendar
  (\<^verbatim>\<open>getFilteredActivities\<close>) and the personal schedule (\<^verbatim>\<open>getMySchedule\<close>).
  Only the fields the component reads are kept. \<^verbatim>\<open>isAccepted\<close> is computed by the
  server for the requesting member and may be missing from an entry, hence the option.
\<close>

record ActivityWithDetails =
  activity_id :: nat
  activity_name :: string
  category :: string
  isAccepted :: "bool option"

record User =
  user_id :: string

record TripWithDetails =
  trip_id :: nat

text \<open>
  The values the two view functions close over: the data of the activities query
  (\<open>None\<close> while it is undefined), the authenticated user and the category selected
  in the filter drop-down (initially \<^verbatim>\<open>"all"\<close>).
\<close>

record TripPage =
  activities :: "ActivityWithDetails list option"
  user :: "User option"
  categoryFilter :: string

text \<open>JavaScript truthiness of an optional boolean field.\<close>

fun truthy :: "bool option \<Rightarrow> bool" where
  "truthy None = False"
| "truthy (Some b) = b"

text \<open>
  \<^verbatim>\<open>
  const getFilteredActivities = () => {
    if (!activities) return [];
    let filteredActivities = activities;
    if (categoryFilter === "all") return filteredActivities;
    return filteredActivities.filter(activity => activity.category === categoryFilter);
  };
  \<close>
\<close>

definition getFilteredActivities :: "TripPage \<Rightarrow> ActivityWithDetails list" where
  "getFilteredActivities p =
     (case activities p of
        None \<Rightarrow> []
      | Some filteredActivities \<Rightarrow>
          if categoryFilter p = ''all'' then filteredActivities
          else filter (\<lambda>activity. category activity = categoryFilter p) filteredActivities)"

text \<open>
  \<^verbatim>\<open>
  const getMySchedule = () => {
    if (!activities || !user) return [];
    return activities.filter(activity => activity.isAccepted);
  };
  \<close>
\<close>

definition getMySchedule :: "TripPage \<Rightarrow> ActivityWithDetails list" where
  "getMySchedule p =
     (case activities p of
        None \<Rightarrow> []
      | Some acts \<Rightarrow>
          (case user p of
             None \<Rightarrow> []
           | Some u \<Rightarrow> filter (\<lambda>activity. truthy (isAccepted activity)) acts))"

section \<open>The query cache\<close>

text \<open>
  The component reads server state through a query cache whose entries are addressed by
  a query key, an array of strings here. \<^verbatim>\<open>invalidateQueries({ queryKey })\<close> marks as
  invalidated (and, when the query is mounted, refetches) every cached query whose key
  starts with the given key, element by element: that is the library's
  \<^verbatim>\<open>partialMatchKey\<close>, which compares the elements at the indices of the filter key.
\<close>

type_synonym QueryKey = "string list"

record 'd Query =
  queryKey :: QueryKey
  queryData :: "'d option"
  isInvalidated :: bool

fun partialMatchKey :: "QueryKey \<Rightarrow> QueryKey \<Rightarrow> bool" where
  "partialMatchKey k [] = True"
| "partialMatchKey [] (f # fs) = False"
| "partialMatchKey (k # ks) (f # fs) = (k = f \<and> partialMatchKey ks fs)"

definition invalidateQueries :: "QueryKey \<Rightarrow> 'd Query list \<Rightarrow> 'd Query list" where
  "invalidateQueries filterKey cache =
     map (\<lambda>q. if partialMatchKey (queryKey q) filterKey then q\<lparr>isInvalidated := True\<rparr> else q)
       cache"

text \<open>
  The two queries of the trip page, for the route parameter \<^verbatim>\<open>id\<close>:
  \<^verbatim>\<open>queryKey: ["/api/trips", id]\<close> and
  \<^verbatim>\<open>queryKey: [`/api/trips/${id}/activities`]\<close>.
\<close>

definition tripQueryKey :: "string \<Rightarrow> QueryKey" where
  "tripQueryKey rid = [''/api/trips'', rid]"

definition activitiesQueryKey :: "string \<Rightarrow> QueryKey" where
  "activitiesQueryKey rid = [''/api/trips/'' @ rid @ ''/activities'']"

section \<open>The live channel\<close>

text \<open>
  \<^verbatim>\<open>
  useEffect(() => {
    if (!trip || !user) return;
    const socket = new WebSocket(wsUrl);
    socket.onopen = () => {
      socket.send(JSON.stringify({ type: 'join_trip', userId: user.id, tripId: trip.id }));
    };
    socket.onmessage = (event) => {
      const message = JSON.parse(event.data);
      if (message.type === 'activity_created' ||
          message.type === 'activity_accepted' ||
          message.type === 'activity_declined') {
        queryClient.invalidateQueries({ queryKey: ["/api/trips", id, "activities"] });
      }
    };
    return () => socket.close();
  }, [trip, user, id, queryClient]);
  \<close>
  A socket keeps what its handlers close over (\<^verbatim>\<open>user\<close>, \<^verbatim>\<open>trip\<close>, \<^verbatim>\<open>id\<close>) and the
  messages sent on it so far. No \<^verbatim>\<open>onclose\<close> and no \<^verbatim>\<open>onerror\<close> handler is installed.
\<close>

datatype ClientMessage = JoinTrip string nat

datatype ReadyState = CONNECTING | OPEN | CLOSED

record WebSocket =
  readyState :: ReadyState
  sent :: "ClientMessage list"
  closure_user :: User
  closure_trip :: TripWithDetails
  closure_id :: string

record ServerMessage =
  msg_type :: string

record Toast =
  toast_title :: string
  toast_description :: string
  toast_variant :: "string option"

text \<open>
  The client outside the component's own variables: the socket of the last effect run
  that made one, the number of \<^verbatim>\<open>new WebSocket\<close> calls so far, the query cache and the
  toasts shown.
\<close>

record 'd Client =
  socket :: "WebSocket option"
  opened :: nat
  queryCache :: "'d Query list"
  toasts :: "Toast list"

definition onopen :: "WebSocket \<Rightarrow> WebSocket" where
  "onopen s = s\<lparr>sent := sent s @ [JoinTrip (user_id (closure_user s)) (trip_id (closure_trip s))]\<rparr>"

text \<open>
  The event data is \<open>None\<close> when \<^verbatim>\<open>JSON.parse\<close> throws: the handler then ends without
  touching anything.
\<close>

definition onmessage :: "string \<Rightarrow> ServerMessage option \<Rightarrow> 'd Query list \<Rightarrow> 'd Query list" where
  "onmessage rid event cache =
     (case event of
        None \<Rightarrow> cache
      | Some message \<Rightarrow>
          if msg_type message = ''activity_created'' \<or>
             msg_type message = ''activity_accepted'' \<or>
             msg_type message = ''activity_declined''
          then invalidateQueries [''/api/trips'', rid, ''activities''] cache
          else cache)"

text \<open>The cleanup of the effect, \<^verbatim>\<open>socket.close()\<close>.\<close>

definition cleanup :: "'d Client \<Rightarrow> 'd Client" where
  "cleanup c =
     (case socket c of
        None \<Rightarrow> c
      | Some s \<Rightarrow> c\<lparr>socket := Some (s\<lparr>readyState := CLOSED\<rparr>)\<rparr>)"

text \<open>The body of the effect, run with the current \<^verbatim>\<open>id\<close>, \<^verbatim>\<open>trip\<close> and \<^verbatim>\<open>user\<close>.\<close>

definition effect :: "string \<Rightarrow> TripWithDetails option \<Rightarrow> User option \<Rightarrow> 'd Client \<Rightarrow> 'd Client" where
  "effect rid trip usr c =
     (case trip of
        None \<Rightarrow> c
      | Some t \<Rightarrow>
          (case usr of
             None \<Rightarrow> c
           | Some u \<Rightarrow>
               c\<lparr>socket := Some \<lparr>readyState = CONNECTING, sent = [], closure_user = u,
                                closure_trip = t, closure_id = rid\<rparr>,
                 opened := Suc (opened c)\<rparr>))"

text \<open>
  What can happen to the client's live channel:
  \<^item> \<open>EffectRun\<close>: the component mounts, or renders with a changed dependency; the
    cleanup of the previous run is called, then the body of the effect;
  \<^item> \<open>SocketOpen\<close>: the connection is established, the browser calls \<^verbatim>\<open>onopen\<close>;
  \<^item> \<open>SocketMessage\<close>: a message arrives on an open socket, the browser calls
    \<^verbatim>\<open>onmessage\<close>;
  \<^item> \<open>ConnectionLost\<close>: the connection fails or drops; the socket is closed and the
    browser would call \<^verbatim>\<open>onerror\<close> and \<^verbatim>\<open>onclose\<close>, which are not set;
  \<^item> \<open>Unmount\<close>: the component unmounts and the cleanup is called.
\<close>

datatype Event =
    EffectRun string "TripWithDetails option" "User option"
  | SocketOpen
  | SocketMessage "ServerMessage option"
  | ConnectionLost
  | Unmount

fun step :: "'d Client \<Rightarrow> Event \<Rightarrow> 'd Client" where
  "step c (EffectRun rid trip usr) = effect rid trip usr (cleanup c)"
| "step c SocketOpen =
     (case socket c of
        None \<Rightarrow> c
      | Some s \<Rightarrow>
          if readyState s = CONNECTING
          then c\<lparr>socket := Some (onopen (s\<lparr>readyState := OPEN\<rparr>))\<rparr>
          else c)"
| "step c (SocketMessage event) =
     (case socket c of
        None \<Rightarrow> c
      | Some s \<Rightarrow>
          if readyState s = OPEN
          then c\<lparr>queryCache := onmessage (closure_id s) event (queryCache c)\<rparr>
          else c)"
| "step c ConnectionLost =
     (case socket c of
        None \<Rightarrow> c
      | Some s \<Rightarrow> c\<lparr>socket := Some (s\<lparr>readyState := CLOSED\<rparr>)\<rparr>)"
| "step c Unmount = cleanup c"

definition run :: "'d Client \<Rightarrow> Event list \<Rightarrow> 'd Client" where
  "run c events = foldl step c events"

text \<open>
  What has been sent on a socket, by its state: nothing while it connects, the one join
  message of its closure once it is open.
\<close>

definition joined :: "WebSocket \<Rightarrow> bool" where
  "joined s =
     (case readyState s of
        CONNECTING \<Rightarrow> sent s = []
      | OPEN \<Rightarrow> sent s = [JoinTrip (user_id (closure_user s)) (trip_id (closure_trip s))]
      | CLOSED \<Rightarrow> True)"

definition socket_ok :: "'d Client \<Rightarrow> bool" where
  "socket_ok c = (case socket c of None \<Rightarrow> True | Some s \<Rightarrow> joined s)"

section \<open>Accepting and declining\<close>

text \<open>
  \<^verbatim>\<open>
  const acceptActivityMutation = useMutation({
    mutationFn: async (activityId: number) => {
      const response = await fetch(`/api/activities/${activityId}/accept`, {
        method: 'POST', credentials: 'include' });
      if (!response.ok) throw new Error('Failed to accept activity');
      return response.json();
    },
    onSuccess: () => {
      queryClient.invalidateQueries({ queryKey: [`/api/trips/${id}/activities`] });
      toast({ title: "Activity accepted!", description: "Added to your personal calendar" });
    },
    onError: (error) => {
      toast({ title: "Error", description: "Failed to accept activity", variant: "destructive" });
    },
  });
  \<close>
  \<^verbatim>\<open>declineActivityMutation\<close> is the same with \<^verbatim>\<open>method: 'DELETE'\<close> on the same URL and
  its own texts. Neither mutation has an \<^verbatim>\<open>onMutate\<close> callback.
\<close>

datatype Method = POST | DELETE

record Request =
  req_method :: Method
  url :: string
  credentials :: string
  body :: "string option"

text \<open>
  A response as the mutation reads it: the \<^verbatim>\<open>ok\<close> flag and the parsed body, \<open>None\<close>
  when \<^verbatim>\<open>response.json()\<close> rejects.
\<close>

record 'j Response =
  ok :: bool
  json :: "'j option"

datatype MutationError = FetchRejected | Thrown string | JsonRejected

text \<open>Activity ids are the non-negative integers of the store; in a template string
  they are written in decimal.\<close>

definition digit_char :: "nat \<Rightarrow> char" where
  "digit_char d = ''0123456789'' ! d"

fun string_of_nat :: "nat \<Rightarrow> string" where
  "string_of_nat n =
     (if n < 10 then [digit_char n] else string_of_nat (n div 10) @ [digit_char (n mod 10)])"

declare string_of_nat.simps [simp del]

definition acceptRequest :: "nat \<Rightarrow> Request" where
  "acceptRequest activityId =
     \<lparr>req_method = POST, url = ''/api/activities/'' @ string_of_nat activityId @ ''/accept'',
      credentials = ''include'', body = None\<rparr>"

definition declineRequest :: "nat \<Rightarrow> Request" where
  "declineRequest activityId =
     \<lparr>req_method = DELETE, url = ''/api/activities/'' @ string_of_nat activityId @ ''/accept'',
      credentials = ''include'', body = None\<rparr>"

text \<open>
  The network and the server are the parameter \<open>fetch\<close>: what a request is answered
  with, \<open>None\<close> when the promise of \<^verbatim>\<open>fetch\<close> rejects.
\<close>

definition accept_mutationFn :: "(Request \<Rightarrow> 'j Response option) \<Rightarrow> nat \<Rightarrow> MutationError + 'j" where
  "accept_mutationFn fetch activityId =
     (case fetch (acceptRequest activityId) of
        None \<Rightarrow> Inl FetchRejected
      | Some response \<Rightarrow>
          if \<not> ok response then Inl (Thrown ''Failed to accept activity'')
          else (case json response of None \<Rightarrow> Inl JsonRejected | Some j \<Rightarrow> Inr j))"

definition decline_mutationFn :: "(Request \<Rightarrow> 'j Response option) \<Rightarrow> nat \<Rightarrow> MutationError + 'j" where
  "decline_mutationFn fetch activityId =
     (case fetch (declineRequest activityId) of
        None \<Rightarrow> Inl FetchRejected
      | Some response \<Rightarrow>
          if \<not> ok response then Inl (Thrown ''Failed to decline activity'')
          else (case json response of None \<Rightarrow> Inl JsonRejected | Some j \<Rightarrow> Inr j))"

definition acceptedToast :: Toast where
  "acceptedToast =
     \<lparr>toast_title = ''Activity accepted!'', toast_description = ''Added to your personal calendar'',
      toast_variant = None\<rparr>"

definition acceptErrorToast :: Toast where
  "acceptErrorToast =
     \<lparr>toast_title = ''Error'', toast_description = ''Failed to accept activity'',
      toast_variant = Some ''destructive''\<rparr>"

definition declinedToast :: Toast where
  "declinedToast =
     \<lparr>toast_title = ''Activity declined'', toast_description = ''Removed from your calendar'',
      toast_variant = None\<rparr>"

definition declineErrorToast :: Toast where
  "declineErrorToast =
     \<lparr>toast_title = ''Error'', toast_description = ''Failed to decline activity'',
      toast_variant = Some ''destructive''\<rparr>"

text \<open>
  \<^verbatim>\<open>mutate(activityId)\<close>: the mutation function runs; \<^verbatim>\<open>onSuccess\<close> is called when it
  resolves, \<^verbatim>\<open>onError\<close> when it throws or rejects.
\<close>

definition acceptActivityMutation ::
  "(Request \<Rightarrow> 'j Response option) \<Rightarrow> string \<Rightarrow> nat \<Rightarrow> 'd Client \<Rightarrow> 'd Client" where
  "acceptActivityMutation fetch rid activityId c =
     (case accept_mutationFn fetch activityId of
        Inr j \<Rightarrow>
          c\<lparr>queryCache := invalidateQueries (activitiesQueryKey rid) (queryCache c),
            toasts := toasts c @ [acceptedToast]\<rparr>
      | Inl error \<Rightarrow> c\<lparr>toasts := toasts c @ [acceptErrorToast]\<rparr>)"

definition declineActivityMutation ::
  "(Request \<Rightarrow> 'j Response option) \<Rightarrow> string \<Rightarrow> nat \<Rightarrow> 'd Client \<Rightarrow> 'd Client" where
  "declineActivityMutation fetch rid activityId c =
     (case decline_mutationFn fetch activityId of
        Inr j \<Rightarrow>
          c\<lparr>queryCache := invalidateQueries (activitiesQueryKey rid) (queryCache c),
            toasts := toasts c @ [declinedToast]\<rparr>
      | Inl error \<Rightarrow> c\<lparr>toasts := toasts c @ [declineErrorToast]\<rparr>)"

section \<open>Proposing a discovered activity\<close>

text \<open>
  The \<^verbatim>\<open>Activities\<close> component of \<^verbatim>\<open>src/activities.tsx\<close> lists activities found by a
  travel search and proposes one to the group:
  \<^verbatim>\<open>
  const now = new Date();
  const startDate = now.toISOString().split('T')[0];
  const startTime = "12:00";
  const startDateTime = new Date(`${startDate}T${startTime}`).toISOString();
  const response = await fetch(`/api/trips/${tripId}/activities`, {
    method: 'POST', headers: { 'Content-Type': 'application/json' }, credentials: 'include',
    body: JSON.stringify({
      name: activity.name, description: activity.description, location: activity.location,
      startTime: startDateTime, endTime: null, category: activity.category,
      cost: activity.price ? parseFloat(activity.price) : null,
      maxCapacity: 10, tripCalendarId: parseInt(tripId),
    }),
  });
  \<close>
  Of a discovered activity only the fields the handler reads are kept.
\<close>

record DiscoveredActivity =
  d_name :: string
  d_description :: string
  d_location :: string
  d_category :: string
  price :: string

text \<open>
  A JavaScript number as \<^verbatim>\<open>parseFloat\<close> and \<^verbatim>\<open>parseInt\<close> return it: not a number, an
  infinity, or \<open>Decimal m e\<close>, the finite number nearest to \<open>m * 10 ^ e\<close>. A JSON
  value has no NaN and no infinity: \<^verbatim>\<open>JSON.stringify\<close> writes them as \<^verbatim>\<open>null\<close>.
\<close>

datatype JsNumber = NaN | PosInfinity | NegInfinity | Decimal int int

datatype Json = JNull | JNumber int int | JString string

fun jsonNumber :: "JsNumber \<Rightarrow> Json" where
  "jsonNumber (Decimal m e) = JNumber m e"
| "jsonNumber NaN = JNull"
| "jsonNumber PosInfinity = JNull"
| "jsonNumber NegInfinity = JNull"

text \<open>
  Strings are lists of 8-bit characters, read as the code units U+0000 to U+00FF.
  \<^verbatim>\<open>parseFloat\<close> skips the leading white space and line terminators; among these
  code units they are the tab, the line feed, the vertical tab, the form feed, the
  carriage return, the space and the no-break space U+00A0. It then reads the longest
  prefix that is a decimal literal: an optional sign, then \<^verbatim>\<open>Infinity\<close>, or digits with
  an optional fraction, or a fraction alone, and an exponent when one is there in
  full. Without such a prefix the result is NaN. A literal of a magnitude of at least
  \<open>2^1024 - 2^970\<close> rounds to an infinity.
\<close>

definition isWhiteSpace :: "char \<Rightarrow> bool" where
  "isWhiteSpace c =
     (c \<in> set [CHR 0x09, CHR 0x0A, CHR 0x0B, CHR 0x0C, CHR 0x0D, CHR 0x20, CHR 0xA0])"

definition isDigit :: "char \<Rightarrow> bool" where
  "isDigit c = (c \<in> set ''0123456789'')"

definition isHexDigit :: "char \<Rightarrow> bool" where
  "isHexDigit c = (c \<in> set ''0123456789abcdefABCDEF'')"

definition digitValue :: "char \<Rightarrow> nat" where
  "digitValue c =
     (if c \<in> set ''ABCDEF'' then 10 + length (takeWhile (\<lambda>d. d \<noteq> c) ''ABCDEF'')
      else length (takeWhile (\<lambda>d. d \<noteq> c) ''0123456789abcdef''))"

definition digitsValue :: "int \<Rightarrow> string \<Rightarrow> int" where
  "digitsValue radix ds = foldl (\<lambda>n c. radix * n + int (digitValue c)) 0 ds"

definition overflows :: "int \<Rightarrow> int \<Rightarrow> bool" where
  "overflows m e =
     (if 0 \<le> e then 2 ^ 1024 - 2 ^ 970 \<le> m * 10 ^ nat e
      else (2 ^ 1024 - 2 ^ 970) * 10 ^ nat (- e) \<le> m)"

definition exponentPart :: "string \<Rightarrow> int" where
  "exponentPart s =
     (case s of
        [] \<Rightarrow> 0
      | c # r \<Rightarrow>
          if c = CHR ''e'' \<or> c = CHR ''E'' then
            (case r of
               [] \<Rightarrow> 0
             | d # r' \<Rightarrow>
                 if d = CHR ''-'' then - digitsValue 10 (takeWhile isDigit r')
                 else if d = CHR ''+'' then digitsValue 10 (takeWhile isDigit r')
                 else digitsValue 10 (takeWhile isDigit r))
          else 0)"

definition unsignedDecimal :: "string \<Rightarrow> (int \<times> int) option" where
  "unsignedDecimal s =
     (let ip = takeWhile isDigit s; r = dropWhile isDigit s in
      case r of
        [] \<Rightarrow> if ip = [] then None else Some (digitsValue 10 ip, 0)
      | c # r' \<Rightarrow>
          if c = CHR ''.'' then
            (let fp = takeWhile isDigit r' in
             if ip = [] \<and> fp = [] then None
             else Some (digitsValue 10 (ip @ fp),
                        exponentPart (dropWhile isDigit r') - int (length fp)))
          else if ip = [] then None
          else Some (digitsValue 10 ip, exponentPart r))"

definition signedNumber :: "bool \<Rightarrow> string \<Rightarrow> JsNumber" where
  "signedNumber negative s =
     (if take 8 s = ''Infinity'' then (if negative then NegInfinity else PosInfinity)
      else
        (case unsignedDecimal s of
           None \<Rightarrow> NaN
         | Some (m, e) \<Rightarrow>
             if overflows m e then (if negative then NegInfinity else PosInfinity)
             else Decimal (if negative then - m else m) e))"

definition parseFloat :: "string \<Rightarrow> JsNumber" where
  "parseFloat string =
     (case dropWhile isWhiteSpace string of
        [] \<Rightarrow> NaN
      | c # r \<Rightarrow>
          if c = CHR ''-'' then signedNumber True r
          else if c = CHR ''+'' then signedNumber False r
          else signedNumber False (c # r))"

text \<open>
  \<^verbatim>\<open>parseInt\<close> without a radix: white space, an optional sign, then the digits in base
  16 after \<^verbatim>\<open>0x\<close> or \<^verbatim>\<open>0X\<close> and in base 10 otherwise; NaN when there is no digit.
\<close>

definition unsignedInteger :: "bool \<Rightarrow> string \<Rightarrow> JsNumber" where
  "unsignedInteger negative s =
     (let hex = (take 2 s = ''0x'' \<or> take 2 s = ''0X'');
          ds = (if hex then takeWhile isHexDigit (drop 2 s) else takeWhile isDigit s);
          m = digitsValue (if hex then 16 else 10) ds
      in if ds = [] then NaN
         else if overflows m 0 then (if negative then NegInfinity else PosInfinity)
         else Decimal (if negative then - m else m) 0)"

definition parseInt :: "string \<Rightarrow> JsNumber" where
  "parseInt string =
     (case dropWhile isWhiteSpace string of
        [] \<Rightarrow> NaN
      | c # r \<Rightarrow>
          if c = CHR ''-'' then unsignedInteger True r
          else if c = CHR ''+'' then unsignedInteger False r
          else unsignedInteger False (c # r))"

text \<open>
  Time. A \<^verbatim>\<open>Date\<close> is an instant, the milliseconds since the epoch. A string that holds
  an ISO date and time is kept as what it denotes: \<^verbatim>\<open>YYYY-MM-DD\<close> as the number of days
  since 1970-01-01 and the part after \<^verbatim>\<open>T\<close> as the milliseconds since midnight.
  \<^verbatim>\<open>toISOString\<close> writes an instant in UTC, so \<^verbatim>\<open>.split('T')[0]\<close> of it is the UTC date
  of the instant.
\<close>

record IsoDateTime =
  iso_date :: int
  iso_time :: int

definition msPerDay :: int where
  "msPerDay = 86400000"

definition toISOString :: "int \<Rightarrow> IsoDateTime" where
  "toISOString t = \<lparr>iso_date = t div msPerDay, iso_time = t mod msPerDay\<rparr>"

text \<open>The instant an ISO date and time in UTC denotes.\<close>

definition instantOf :: "IsoDateTime \<Rightarrow> int" where
  "instantOf s = iso_date s * msPerDay + iso_time s"

text \<open>The time of day \<^verbatim>\<open>HH:mm\<close>, in milliseconds since midnight.\<close>

definition timeOfDay :: "int \<Rightarrow> int \<Rightarrow> int" where
  "timeOfDay h m = (h * 60 + m) * 60000"

text \<open>
  The browser: \<open>now_ms\<close> is the instant \<^verbatim>\<open>new Date()\<close> gives, and \<open>localOffset w\<close> is
  what the local time zone is ahead of UTC, in milliseconds, when the local clock
  reads \<open>w\<close> (the milliseconds from 1970-01-01T00:00 on the local clock).
\<close>

record Browser =
  now_ms :: int
  localOffset :: "int \<Rightarrow> int"

text \<open>
  \<^verbatim>\<open>new Date(`${date}T${time}`)\<close>: a date and time without an offset is read as local
  time. For the instants of a real clock the date is valid and \<^verbatim>\<open>toISOString\<close> does
  not throw.
\<close>

definition newDateLocal :: "Browser \<Rightarrow> int \<Rightarrow> int \<Rightarrow> int" where
  "newDateLocal browser date time =
     (let wall = date * msPerDay + time in wall - localOffset browser wall)"

text \<open>The body of the request, field by field as \<^verbatim>\<open>JSON.stringify\<close> writes it; the start
  time is the ISO string of \<^verbatim>\<open>startDateTime\<close>.\<close>

record ProposalBody =
  b_name :: Json
  b_description :: Json
  b_location :: Json
  b_startTime :: IsoDateTime
  b_endTime :: Json
  b_category :: Json
  b_cost :: Json
  b_maxCapacity :: Json
  b_tripCalendarId :: Json

record ProposeRequest =
  p_method :: Method
  p_url :: string
  p_contentType :: string
  p_credentials :: string
  p_body :: ProposalBody

definition proposeRequest :: "Browser \<Rightarrow> string \<Rightarrow> DiscoveredActivity \<Rightarrow> ProposeRequest" where
  "proposeRequest browser tripId activity =
     (let now = now_ms browser;
          startDate = iso_date (toISOString now);
          startTime = timeOfDay 12 0;
          startDateTime = toISOString (newDateLocal browser startDate startTime)
      in \<lparr>p_method = POST,
          p_url = ''/api/trips/'' @ tripId @ ''/activities'',
          p_contentType = ''application/json'',
          p_credentials = ''include'',
          p_body =
            \<lparr>b_name = JString (d_name activity),
             b_description = JString (d_description activity),
             b_location = JString (d_location activity),
             b_startTime = startDateTime,
             b_endTime = JNull,
             b_category = JString (d_category activity),
             b_cost = (if price activity \<noteq> [] then jsonNumber (parseFloat (price activity))
                       else JNull),
             b_maxCapacity = jsonNumber (Decimal 10 0),
             b_tripCalendarId = jsonNumber (parseInt tripId)\<rparr>\<rparr>)"

text \<open>
  \<^verbatim>\<open>
  if (!response.ok) {
    const error = await response.json();
    throw new Error(error.message || 'Failed to propose activity');
  }
  toast({ title: "Activity proposed!", ... });
  } catch (error) {
    if (isUnauthorizedError(error as Error)) { toast({ title: "Unauthorized", ... });
      setTimeout(() => { window.location.href = "/api/login"; }, 500); return; }
    toast({ title: "Error", description: "Failed to propose activity", variant: "destructive" });
  }
  \<close>
  The body of an error response is its \<^verbatim>\<open>message\<close>, empty when there is none.
  \<^verbatim>\<open>isUnauthorizedError\<close> is imported from a module that is not among the sources and is
  a parameter.
\<close>

record ProposeOutcome =
  submitted :: ProposeRequest
  shown :: Toast
  redirectedToLogin :: bool

definition proposedToast :: Toast where
  "proposedToast =
     \<lparr>toast_title = ''Activity proposed!'',
      toast_description = ''Your group can now see and accept this activity.'',
      toast_variant = None\<rparr>"

definition unauthorizedToast :: Toast where
  "unauthorizedToast =
     \<lparr>toast_title = ''Unauthorized'',
      toast_description = ''You are logged out. Logging in again...'',
      toast_variant = Some ''destructive''\<rparr>"

definition proposeErrorToast :: Toast where
  "proposeErrorToast =
     \<lparr>toast_title = ''Error'', toast_description = ''Failed to propose activity'',
      toast_variant = Some ''destructive''\<rparr>"

definition handleProposeActivity ::
  "Browser \<Rightarrow> (MutationError \<Rightarrow> bool) \<Rightarrow> (ProposeRequest \<Rightarrow> string Response option) \<Rightarrow>
   string \<Rightarrow> DiscoveredActivity \<Rightarrow> ProposeOutcome" where
  "handleProposeActivity browser isUnauthorizedError fetch tripId activity =
     (let request = proposeRequest browser tripId activity;
          thrown =
            (case fetch request of
               None \<Rightarrow> Some FetchRejected
             | Some response \<Rightarrow>
                 if \<not> ok response then
                   (case json response of
                      None \<Rightarrow> Some JsonRejected
                    | Some message \<Rightarrow>
                        Some (Thrown (if message \<noteq> [] then message
                                      else ''Failed to propose activity'')))
                 else None)
      in case thrown of
           None \<Rightarrow> \<lparr>submitted = request, shown = proposedToast, redirectedToLogin = False\<rparr>
         | Some error \<Rightarrow>
             if isUnauthorizedError error
             then \<lparr>submitted = request, shown = unauthorizedToast, redirectedToLogin = True\<rparr>
             else \<lparr>submitted = request, shown = proposeErrorToast, redirectedToLogin = False\<rparr>)"

section \<open>The store and the derived view, as specified\<close>

text \<open>
  The server that stores activities and responses and computes \<^verbatim>\<open>isAccepted\<close> for the
  requesting member is not among the sources; this section follows the specification
  (sections 3, 4.1 and 4.2).
\<close>

record Activity =
  a_id :: nat
  a_groupId :: nat
  a_name :: string
  a_category :: string

record ActivityResponse =
  r_activityId :: nat
  r_memberId :: string
  accepted :: bool










section \<open>Properties of the two views\<close>

text \<open>
  C1. Once the activities are fetched and the member is known, the group calendar with
  the category filter at \<^verbatim>\<open>"all"\<close> is the whole fetched list, whatever the response
  flags of its entries are, and the personal schedule holds exactly the entries whose
  \<^verbatim>\<open>isAccepted\<close> flag is true, in the order of the fetched list.
\<close>

theorem group_view_all_personal_view_accepted:
  assumes "activities p = Some acts" and "user p = Some u" and "categoryFilter p = ''all''"
  shows "getFilteredActivities p = acts
       \<and> getMySchedule p = filter (\<lambda>a. isAccepted a = Some True) acts
       \<and> set (getMySchedule p) = {a \<in> set acts. isAccepted a = Some True}"
proof -
  have t: "truthy x = (x = Some True)" for x
    by (cases x) auto
  have g: "getFilteredActivities p = acts"
    using assms by (simp add: getFilteredActivities_def)
  have m: "getMySchedule p = filter (\<lambda>a. isAccepted a = Some True) acts"
    using assms by (simp add: getMySchedule_def t)
  from g m show ?thesis
    by simp
qed

text \<open>
  The scenario of the specification: A is accepted by the member, B is declined, C has
  no response. The group view is [A, B, C]; the personal view is [A].
\<close>

theorem group_view_all_personal_view_accepted_witness:
  "getFilteredActivities
     \<lparr>activities = Some
        [\<lparr>activity_id = 1, activity_name = ''A'', category = ''food'', isAccepted = Some True\<rparr>,
         \<lparr>activity_id = 2, activity_name = ''B'', category = ''outdoor'', isAccepted = Some False\<rparr>,
         \<lparr>activity_id = 3, activity_name = ''C'', category = ''food'', isAccepted = None\<rparr>],
      user = Some \<lparr>user_id = ''x''\<rparr>, categoryFilter = ''all''\<rparr>
   = [\<lparr>activity_id = 1, activity_name = ''A'', category = ''food'', isAccepted = Some True\<rparr>,
      \<lparr>activity_id = 2, activity_name = ''B'', category = ''outdoor'', isAccepted = Some False\<rparr>,
      \<lparr>activity_id = 3, activity_name = ''C'', category = ''food'', isAccepted = None\<rparr>]
   \<and> getMySchedule
     \<lparr>activities = Some
        [\<lparr>activity_id = 1, activity_name = ''A'', category = ''food'', isAccepted = Some True\<rparr>,
         \<lparr>activity_id = 2, activity_name = ''B'', category = ''outdoor'', isAccepted = Some False\<rparr>,
         \<lparr>activity_id = 3, activity_name = ''C'', category = ''food'', isAccepted = None\<rparr>],
      user = Some \<lparr>user_id = ''x''\<rparr>, categoryFilter = ''all''\<rparr>
   = [\<lparr>activity_id = 1, activity_name = ''A'', category = ''food'', isAccepted = Some True\<rparr>]"
  using group_view_all_personal_view_accepted
    [of "\<lparr>activities = Some
        [\<lparr>activity_id = 1, activity_name = ''A'', category = ''food'', isAccepted = Some True\<rparr>,
         \<lparr>activity_id = 2, activity_name = ''B'', category = ''outdoor'', isAccepted = Some False\<rparr>,
         \<lparr>activity_id = 3, activity_name = ''C'', category = ''food'', isAccepted = None\<rparr>],
      user = Some \<lparr>user_id = ''x''\<rparr>, categoryFilter = ''all''\<rparr>"
       "[\<lparr>activity_id = 1, activity_name = ''A'', category = ''food'', isAccepted = Some True\<rparr>,
         \<lparr>activity_id = 2, activity_name = ''B'', category = ''outdoor'', isAccepted = Some False\<rparr>,
         \<lparr>activity_id = 3, activity_name = ''C'', category = ''food'', isAccepted = None\<rparr>]"
       "\<lparr>user_id = ''x''\<rparr>"]
  by simp

text \<open>
  C9. The personal schedule does not depend on the category filter: changing the
  selected category changes nothing in what \<^verbatim>\<open>getMySchedule\<close> returns.
\<close>

theorem my_schedule_ignores_category_filter:
  "getMySchedule (p\<lparr>categoryFilter := c1\<rparr>) = getMySchedule (p\<lparr>categoryFilter := c2\<rparr>)"
  by (simp add: getMySchedule_def split: option.splits)

text \<open>
  C10. With the category filter at \<^verbatim>\<open>"all"\<close>, every entry of the personal schedule is
  an entry of the group calendar; the personal schedule is even a subsequence of it.
\<close>

theorem my_schedule_within_group_view:
  assumes "categoryFilter p = ''all''"
  shows "set (getMySchedule p) \<subseteq> set (getFilteredActivities p)
       \<and> subseq (getMySchedule p) (getFilteredActivities p)"
  using assms
  by (auto simp: getMySchedule_def getFilteredActivities_def split: option.splits)

theorem my_schedule_within_group_view_witness:
  "set (getMySchedule
     \<lparr>activities = Some
        [\<lparr>activity_id = 1, activity_name = ''A'', category = ''food'', isAccepted = Some True\<rparr>,
         \<lparr>activity_id = 2, activity_name = ''B'', category = ''outdoor'', isAccepted = None\<rparr>],
      user = Some \<lparr>user_id = ''x''\<rparr>, categoryFilter = ''all''\<rparr>)
   \<subseteq> set (getFilteredActivities
     \<lparr>activities = Some
        [\<lparr>activity_id = 1, activity_name = ''A'', category = ''food'', isAccepted = Some True\<rparr>,
         \<lparr>activity_id = 2, activity_name = ''B'', category = ''outdoor'', isAccepted = None\<rparr>],
      user = Some \<lparr>user_id = ''x''\<rparr>, categoryFilter = ''all''\<rparr>)
   \<and> getMySchedule
     \<lparr>activities = Some
        [\<lparr>activity_id = 1, activity_name = ''A'', category = ''food'', isAccepted = Some True\<rparr>,
         \<lparr>activity_id = 2, activity_name = ''B'', category = ''outdoor'', isAccepted = None\<rparr>],
      user = Some \<lparr>user_id = ''x''\<rparr>, categoryFilter = ''all''\<rparr>
   = [\<lparr>activity_id = 1, activity_name = ''A'', category = ''food'', isAccepted = Some True\<rparr>]"
  using my_schedule_within_group_view
    [of "\<lparr>activities = Some
        [\<lparr>activity_id = 1, activity_name = ''A'', category = ''food'', isAccepted = Some True\<rparr>,
         \<lparr>activity_id = 2, activity_name = ''B'', category = ''outdoor'', isAccepted = None\<rparr>],
      user = Some \<lparr>user_id = ''x''\<rparr>, categoryFilter = ''all''\<rparr>"]
  by (simp add: getMySchedule_def)

section \<open>Properties of the live channel\<close>

lemma step_socket_ok: "socket_ok c \<Longrightarrow> socket_ok (step c e)"
  by (cases e)
     (auto simp: socket_ok_def joined_def cleanup_def effect_def onopen_def
           split: option.splits ReadyState.splits)

lemma run_socket_ok: "socket_ok c \<Longrightarrow> socket_ok (run c events)"
  unfolding run_def
  by (induction events arbitrary: c) (auto simp: step_socket_ok)

lemma step_closed_socket:
  assumes "socket c = Some s" and "readyState s = CLOSED"
    and "\<forall>rid t u. e \<noteq> EffectRun rid t u"
  shows "step c e = c"
  using assms by (cases e) (auto simp: cleanup_def)

lemma run_closed_socket:
  assumes "socket c = Some s" and "readyState s = CLOSED"
    and "\<forall>rid t u. EffectRun rid t u \<notin> set events"
  shows "run c events = c"
  using assms unfolding run_def
proof (induction events)
  case Nil
  then show ?case by simp
next
  case (Cons e events)
  from Cons.prems have "step c e = c"
    by (intro step_closed_socket [of c s]) auto
  with Cons show ?case by simp
qed

text \<open>
  C2. A change event on the live channel is meant to refresh the activities that feed
  both views. The handler does call \<^verbatim>\<open>invalidateQueries\<close> for the created, accepted and
  declined events, but with the key \<^verbatim>\<open>["/api/trips", id, "activities"]\<close>, which matches
  neither query of the page: whatever the event, the cache of the page is left as it was
  and the activities query is not invalidated. The mutations' \<^verbatim>\<open>onSuccess\<close> use the key
  the query was fetched under, and that call does invalidate it.
\<close>

theorem onmessage_misses_activities_query:
  "onmessage rid event
     [\<lparr>queryKey = tripQueryKey rid, queryData = t, isInvalidated = False\<rparr>,
      \<lparr>queryKey = activitiesQueryKey rid, queryData = d, isInvalidated = False\<rparr>]
   = [\<lparr>queryKey = tripQueryKey rid, queryData = t, isInvalidated = False\<rparr>,
      \<lparr>queryKey = activitiesQueryKey rid, queryData = d, isInvalidated = False\<rparr>]
   \<and> invalidateQueries (activitiesQueryKey rid)
     [\<lparr>queryKey = tripQueryKey rid, queryData = t, isInvalidated = False\<rparr>,
      \<lparr>queryKey = activitiesQueryKey rid, queryData = d, isInvalidated = False\<rparr>]
   = [\<lparr>queryKey = tripQueryKey rid, queryData = t, isInvalidated = False\<rparr>,
      \<lparr>queryKey = activitiesQueryKey rid, queryData = d, isInvalidated = True\<rparr>]"
  by (simp add: onmessage_def invalidateQueries_def activitiesQueryKey_def tripQueryKey_def
      split: option.splits)

text \<open>
  C6, as the specification states it, fails. After the connection is lost no handler
  runs: the socket stays closed, no second socket is made and nothing is invalidated,
  whatever the transport reports next (first run below). A new connection is made only
  when the effect runs again, and then the client sends its join message and re-fetches
  nothing (second run below).
\<close>

theorem no_reconnect_no_resync_counterexample:
  "run \<lparr>socket = None, opened = 0,
        queryCache = [\<lparr>queryKey = activitiesQueryKey ''5'',
                       queryData = Some ([] :: ActivityWithDetails list),
                       isInvalidated = False\<rparr>],
        toasts = []\<rparr>
     [EffectRun ''5'' (Some \<lparr>trip_id = 5\<rparr>) (Some \<lparr>user_id = ''u1''\<rparr>), SocketOpen,
      ConnectionLost, SocketOpen, SocketMessage (Some \<lparr>msg_type = ''activity_created''\<rparr>)]
   = \<lparr>socket = Some \<lparr>readyState = CLOSED, sent = [JoinTrip ''u1'' 5],
                      closure_user = \<lparr>user_id = ''u1''\<rparr>, closure_trip = \<lparr>trip_id = 5\<rparr>,
                      closure_id = ''5''\<rparr>,
      opened = 1,
      queryCache = [\<lparr>queryKey = activitiesQueryKey ''5'', queryData = Some [],
                     isInvalidated = False\<rparr>],
      toasts = []\<rparr>
  \<and> run \<lparr>socket = None, opened = 0,
        queryCache = [\<lparr>queryKey = activitiesQueryKey ''5'',
                       queryData = Some ([] :: ActivityWithDetails list),
                       isInvalidated = False\<rparr>],
        toasts = []\<rparr>
     [EffectRun ''5'' (Some \<lparr>trip_id = 5\<rparr>) (Some \<lparr>user_id = ''u1''\<rparr>), SocketOpen,
      ConnectionLost,
      EffectRun ''5'' (Some \<lparr>trip_id = 5\<rparr>) (Some \<lparr>user_id = ''u1''\<rparr>), SocketOpen]
   = \<lparr>socket = Some \<lparr>readyState = OPEN, sent = [JoinTrip ''u1'' 5],
                      closure_user = \<lparr>user_id = ''u1''\<rparr>, closure_trip = \<lparr>trip_id = 5\<rparr>,
                      closure_id = ''5''\<rparr>,
      opened = 2,
      queryCache = [\<lparr>queryKey = activitiesQueryKey ''5'', queryData = Some [],
                     isInvalidated = False\<rparr>],
      toasts = []\<rparr>"
  by (simp add: run_def effect_def cleanup_def onopen_def onmessage_def)

text \<open>
  C6, amended. Once the socket is closed, every sequence of events without a new run of
  the effect leaves the client exactly as it is: no reconnection, nothing sent, nothing
  invalidated. A run of the effect and the opening of its socket leave the query cache
  as it is: connecting, and reconnecting, re-fetch nothing.
\<close>

theorem closed_socket_stays_closed:
  "(socket c = Some s \<and> readyState s = CLOSED \<and> (\<forall>rid t u. EffectRun rid t u \<notin> set events)
      \<longrightarrow> run c events = c)
   \<and> queryCache (step c (EffectRun rid trip usr)) = queryCache c
   \<and> queryCache (step c SocketOpen) = queryCache c"
proof -
  have "queryCache (step c (EffectRun rid trip usr)) = queryCache c"
    by (simp add: effect_def cleanup_def split: option.splits)
  moreover have "queryCache (step c SocketOpen) = queryCache c"
    by (simp split: option.splits)
  ultimately show ?thesis
    using run_closed_socket [of c s events] by blast
qed

theorem closed_socket_stays_closed_witness:
  "run \<lparr>socket = Some \<lparr>readyState = CLOSED, sent = [JoinTrip ''u1'' 5],
                        closure_user = \<lparr>user_id = ''u1''\<rparr>, closure_trip = \<lparr>trip_id = 5\<rparr>,
                        closure_id = ''5''\<rparr>,
        opened = 1, queryCache = ([] :: unit Query list), toasts = []\<rparr>
     [SocketOpen, SocketMessage (Some \<lparr>msg_type = ''activity_accepted''\<rparr>), ConnectionLost, Unmount]
   = \<lparr>socket = Some \<lparr>readyState = CLOSED, sent = [JoinTrip ''u1'' 5],
                      closure_user = \<lparr>user_id = ''u1''\<rparr>, closure_trip = \<lparr>trip_id = 5\<rparr>,
                      closure_id = ''5''\<rparr>,
      opened = 1, queryCache = [], toasts = []\<rparr>"
  using closed_socket_stays_closed
    [of "\<lparr>socket = Some \<lparr>readyState = CLOSED, sent = [JoinTrip ''u1'' 5],
                        closure_user = \<lparr>user_id = ''u1''\<rparr>, closure_trip = \<lparr>trip_id = 5\<rparr>,
                        closure_id = ''5''\<rparr>,
        opened = 1, queryCache = ([] :: unit Query list), toasts = []\<rparr>"
       "\<lparr>readyState = CLOSED, sent = [JoinTrip ''u1'' 5],
                        closure_user = \<lparr>user_id = ''u1''\<rparr>, closure_trip = \<lparr>trip_id = 5\<rparr>,
                        closure_id = ''5''\<rparr>"
       "[SocketOpen, SocketMessage (Some \<lparr>msg_type = ''activity_accepted''\<rparr>), ConnectionLost, Unmount]"]
  by simp

text \<open>
  C7. When the effect has made a socket for trip \<open>t\<close> and user \<open>u\<close> and the socket
  opens, what has been sent on it is the one message \<^verbatim>\<open>join_trip\<close> with the id of \<open>u\<close>
  and the id of \<open>t\<close>: the handler sends it by itself. And in every run from a client
  without a socket, an open socket has sent exactly the join message of the user and
  the trip it was made for, and nothing else.
\<close>

theorem join_trip_sent_on_open:
  assumes "socket c = None"
  shows "socket (step (step c (EffectRun rid (Some t) (Some u))) SocketOpen)
         = Some \<lparr>readyState = OPEN, sent = [JoinTrip (user_id u) (trip_id t)],
                 closure_user = u, closure_trip = t, closure_id = rid\<rparr>
       \<and> (\<forall>s. socket (run c events) = Some s \<and> readyState s = OPEN \<longrightarrow>
              sent s = [JoinTrip (user_id (closure_user s)) (trip_id (closure_trip s))])"
proof -
  have "socket_ok c"
    using assms by (simp add: socket_ok_def)
  then have "socket_ok (run c events)"
    by (rule run_socket_ok)
  then have inv: "\<forall>s. socket (run c events) = Some s \<and> readyState s = OPEN \<longrightarrow>
              sent s = [JoinTrip (user_id (closure_user s)) (trip_id (closure_trip s))]"
    by (auto simp: socket_ok_def joined_def)
  have "socket (step (step c (EffectRun rid (Some t) (Some u))) SocketOpen)
         = Some \<lparr>readyState = OPEN, sent = [JoinTrip (user_id u) (trip_id t)],
                 closure_user = u, closure_trip = t, closure_id = rid\<rparr>"
    by (simp add: effect_def cleanup_def onopen_def split: option.splits)
  with inv show ?thesis
    by blast
qed

theorem join_trip_sent_on_open_witness:
  "socket (run \<lparr>socket = None, opened = 0, queryCache = ([] :: unit Query list), toasts = []\<rparr>
      [EffectRun ''5'' (Some \<lparr>trip_id = 5\<rparr>) (Some \<lparr>user_id = ''u1''\<rparr>), SocketOpen,
       SocketMessage (Some \<lparr>msg_type = ''activity_created''\<rparr>)])
   = Some \<lparr>readyState = OPEN, sent = [JoinTrip ''u1'' 5], closure_user = \<lparr>user_id = ''u1''\<rparr>,
           closure_trip = \<lparr>trip_id = 5\<rparr>, closure_id = ''5''\<rparr>"
  using join_trip_sent_on_open
    [of "\<lparr>socket = None, opened = 0, queryCache = ([] :: unit Query list), toasts = []\<rparr>"
      "''5''" "\<lparr>trip_id = 5\<rparr>" "\<lparr>user_id = ''u1''\<rparr>"
      "[EffectRun ''5'' (Some \<lparr>trip_id = 5\<rparr>) (Some \<lparr>user_id = ''u1''\<rparr>), SocketOpen,
       SocketMessage (Some \<lparr>msg_type = ''activity_created''\<rparr>)]"]
  by (simp add: run_def effect_def cleanup_def onopen_def)

section \<open>Properties of accepting and declining\<close>

text \<open>
  C4, as the specification states it, fails on the client: declining is not the
  operation of accepting with another flag. For activity 7 the decline request is a
  \<^verbatim>\<open>DELETE\<close> of \<^verbatim>\<open>/api/activities/7/accept\<close> without a body, where accepting is a \<^verbatim>\<open>POST\<close>.
\<close>

theorem decline_is_delete_counterexample:
  "declineRequest 7 \<noteq> acceptRequest 7 \<and> req_method (declineRequest 7) = DELETE
   \<and> req_method (acceptRequest 7) = POST
   \<and> url (declineRequest 7) = ''/api/activities/7/accept'' \<and> body (declineRequest 7) = None"
  by (simp add: declineRequest_def acceptRequest_def string_of_nat.simps digit_char_def)

text \<open>
  C4, amended. For every activity, accepting posts to the member's accept resource of
  the activity and declining asks for the deletion of that same resource: the two
  requests differ in the method only, and neither carries a body, so no accepted flag
  is submitted by either.
\<close>

theorem decline_deletes_accept_resource:
  "declineRequest a = (acceptRequest a)\<lparr>req_method := DELETE\<rparr> \<and> req_method (acceptRequest a) = POST
   \<and> url (declineRequest a) = url (acceptRequest a)
   \<and> body (acceptRequest a) = None \<and> body (declineRequest a) = None
   \<and> declineRequest a \<noteq> acceptRequest a"
  by (simp add: declineRequest_def acceptRequest_def)

text \<open>
  C5. When the server answers an accept or a decline with a response that is not ok,
  the client is left as it was but for the error toast: the query cache, and so the
  displayed activities, are untouched. And the cache changes only when the request was
  answered with an ok response: nothing is written before the server has confirmed.
\<close>

theorem failed_response_keeps_cache:
  "(\<forall>r. fetch (acceptRequest a) = Some r \<and> \<not> ok r \<longrightarrow>
      acceptActivityMutation fetch rid a c = c\<lparr>toasts := toasts c @ [acceptErrorToast]\<rparr>)
   \<and> (\<forall>r. fetch (declineRequest a) = Some r \<and> \<not> ok r \<longrightarrow>
      declineActivityMutation fetch rid a c = c\<lparr>toasts := toasts c @ [declineErrorToast]\<rparr>)
   \<and> (queryCache (acceptActivityMutation fetch rid a c) \<noteq> queryCache c \<longrightarrow>
        (\<exists>r. fetch (acceptRequest a) = Some r \<and> ok r))
   \<and> (queryCache (declineActivityMutation fetch rid a c) \<noteq> queryCache c \<longrightarrow>
        (\<exists>r. fetch (declineRequest a) = Some r \<and> ok r))"
  by (auto simp: acceptActivityMutation_def declineActivityMutation_def accept_mutationFn_def
      decline_mutationFn_def split: option.splits sum.splits if_splits)

theorem failed_response_keeps_cache_witness:
  "acceptActivityMutation (\<lambda>r. Some \<lparr>ok = False, json = (None :: unit option)\<rparr>) ''5'' 7
     \<lparr>socket = None, opened = 0,
      queryCache = [\<lparr>queryKey = activitiesQueryKey ''5'',
                     queryData = Some [\<lparr>activity_id = 7, activity_name = ''A'',
                                        category = ''food'', isAccepted = Some False\<rparr>],
                     isInvalidated = False\<rparr>],
      toasts = []\<rparr>
   = \<lparr>socket = None, opened = 0,
      queryCache = [\<lparr>queryKey = activitiesQueryKey ''5'',
                     queryData = Some [\<lparr>activity_id = 7, activity_name = ''A'',
                                        category = ''food'', isAccepted = Some False\<rparr>],
                     isInvalidated = False\<rparr>],
      toasts = [acceptErrorToast]\<rparr>
   \<and> declineActivityMutation (\<lambda>r. Some \<lparr>ok = False, json = (None :: unit option)\<rparr>) ''5'' 7
     \<lparr>socket = None, opened = 0,
      queryCache = [\<lparr>queryKey = activitiesQueryKey ''5'',
                     queryData = Some [\<lparr>activity_id = 7, activity_name = ''A'',
                                        category = ''food'', isAccepted = Some False\<rparr>],
                     isInvalidated = False\<rparr>],
      toasts = []\<rparr>
   = \<lparr>socket = None, opened = 0,
      queryCache = [\<lparr>queryKey = activitiesQueryKey ''5'',
                     queryData = Some [\<lparr>activity_id = 7, activity_name = ''A'',
                                        category = ''food'', isAccepted = Some False\<rparr>],
                     isInvalidated = False\<rparr>],
      toasts = [declineErrorToast]\<rparr>"
  using failed_response_keeps_cache
    [of "\<lambda>r. Some \<lparr>ok = False, json = (None :: unit option)\<rparr>" 7 "''5''"
      "\<lparr>socket = None, opened = 0,
      queryCache = [\<lparr>queryKey = activitiesQueryKey ''5'',
                     queryData = Some [\<lparr>activity_id = 7, activity_name = ''A'',
                                        category = ''food'', isAccepted = Some False\<rparr>],
                     isInvalidated = False\<rparr>],
      toasts = []\<rparr>"]
  by simp

section \<open>The personal schedule against the stored responses\<close>





section \<open>Properties of proposing a discovered activity\<close>

lemma jsonNumber_cases:
  "jsonNumber x = (case x of Decimal m e \<Rightarrow> JNumber m e | _ \<Rightarrow> JNull)"
  by (cases x) simp_all

lemma instantOf_toISOString: "instantOf (toISOString t) = t"
  by (simp add: instantOf_def toISOString_def)

text \<open>White space before the number is skipped, the no-break space included.\<close>

lemma parseFloat_skips_white_space:
  "parseFloat (CHR 0xA0 # '' 25 USD'') = Decimal 25 0"
  by (simp add: parseFloat_def signedNumber_def unsignedDecimal_def isWhiteSpace_def
      isDigit_def digitsValue_def digitValue_def exponentPart_def overflows_def)

text \<open>
  On 2024-05-01 at 23:30 UTC (day 19844), in a browser on UTC, a tea ceremony priced
  \<^verbatim>\<open>"12.50"\<close> is proposed for 2024-05-01T12:00:00.000Z at the cost 12.5.
\<close>

lemma propose_request_example:
  "proposeRequest \<lparr>now_ms = 19844 * 86400000 + 84600000, localOffset = (\<lambda>w. 0)\<rparr> ''5''
     \<lparr>d_name = ''Tea'', d_description = ''Tea ceremony'', d_location = ''Kyoto'',
      d_category = ''culture'', price = ''12.50''\<rparr>
   = \<lparr>p_method = POST, p_url = ''/api/trips/5/activities'',
      p_contentType = ''application/json'', p_credentials = ''include'',
      p_body =
        \<lparr>b_name = JString ''Tea'', b_description = JString ''Tea ceremony'',
         b_location = JString ''Kyoto'',
         b_startTime = \<lparr>iso_date = 19844, iso_time = 43200000\<rparr>,
         b_endTime = JNull, b_category = JString ''culture'', b_cost = JNumber 1250 (- 2),
         b_maxCapacity = JNumber 10 0, b_tripCalendarId = JNumber 5 0\<rparr>\<rparr>"
  by (simp add: proposeRequest_def parseFloat_def signedNumber_def unsignedDecimal_def
      parseInt_def unsignedInteger_def isWhiteSpace_def isDigit_def digitsValue_def
      digitValue_def exponentPart_def overflows_def toISOString_def newDateLocal_def
      msPerDay_def timeOfDay_def)

text \<open>
  The date of the start time is the UTC date of the current instant, where the comment
  in the handler says \<^verbatim>\<open>Today's date\<close>. In a browser seven hours behind UTC, on May 1,
  2024 at 19:00 local time (2024-05-02T02:00Z, day 19845 in UTC and day 19844 on the
  local clock), the start time submitted is 2024-05-02T19:00Z: noon of May 2 on the
  local clock, the day after the member's own.
\<close>

lemma propose_start_date_example:
  "(now_ms \<lparr>now_ms = 19845 * 86400000 + 7200000, localOffset = (\<lambda>w. - 25200000)\<rparr>
      + (- 25200000)) div msPerDay = 19844
   \<and> b_startTime (p_body (proposeRequest
        \<lparr>now_ms = 19845 * 86400000 + 7200000, localOffset = (\<lambda>w. - 25200000)\<rparr> ''5''
        \<lparr>d_name = ''Tea'', d_description = ''Tea ceremony'', d_location = ''Kyoto'',
         d_category = ''culture'', price = ''12.50''\<rparr>))
     = \<lparr>iso_date = 19845, iso_time = 68400000\<rparr>
   \<and> (instantOf \<lparr>iso_date = 19845, iso_time = 68400000\<rparr> + (- 25200000)) div msPerDay = 19845
   \<and> (instantOf \<lparr>iso_date = 19845, iso_time = 68400000\<rparr> + (- 25200000)) mod msPerDay
     = timeOfDay 12 0"
  by (simp add: proposeRequest_def toISOString_def newDateLocal_def msPerDay_def
      timeOfDay_def instantOf_def)

text \<open>
  C8, as stated, fails in its cost clause. For a discovered activity priced
  \<^verbatim>\<open>"Free"\<close> the price string is not empty and \<^verbatim>\<open>parseFloat\<close> gives NaN, but the request
  that is submitted carries \<^verbatim>\<open>"cost": null\<close>: the body is written by \<^verbatim>\<open>JSON.stringify\<close>,
  which has no NaN.
\<close>

theorem propose_cost_nan_counterexample:
  "price \<lparr>d_name = ''Walk'', d_description = ''City walk'', d_location = ''Kyoto'',
          d_category = ''outdoor'', price = ''Free''\<rparr> \<noteq> []
   \<and> parseFloat ''Free'' = NaN
   \<and> b_cost (p_body (proposeRequest
        \<lparr>now_ms = 19844 * 86400000 + 84600000, localOffset = (\<lambda>w. 0)\<rparr> ''5''
        \<lparr>d_name = ''Walk'', d_description = ''City walk'', d_location = ''Kyoto'',
         d_category = ''outdoor'', price = ''Free''\<rparr>)) = JNull"
  by (simp add: proposeRequest_def parseFloat_def signedNumber_def unsignedDecimal_def
      isWhiteSpace_def isDigit_def)

text \<open>
  C8, amended. Whatever the discovered activity, the handler submits the creation
  request, and in it: the start time is an instant at which the local clock reads
  12:00, and it is computed from the clock alone, the same for every discovered
  activity; the end time is null; the capacity is 10; and the cost is the number
  \<^verbatim>\<open>parseFloat\<close> reads from the price string when the string is not empty and that number
  is finite, and null in every other case: an empty string, NaN or an infinity.
\<close>

theorem propose_request_fields:
  "(\<exists>wall. wall mod msPerDay = timeOfDay 12 0
       \<and> instantOf (b_startTime (p_body (proposeRequest browser tripId activity)))
           + localOffset browser wall = wall)
   \<and> b_startTime (p_body (proposeRequest browser tripId activity))
     = b_startTime (p_body (proposeRequest browser tripId' activity'))
   \<and> b_endTime (p_body (proposeRequest browser tripId activity)) = JNull
   \<and> b_maxCapacity (p_body (proposeRequest browser tripId activity)) = JNumber 10 0
   \<and> b_cost (p_body (proposeRequest browser tripId activity))
     = (if price activity = [] then JNull
        else (case parseFloat (price activity) of Decimal m e \<Rightarrow> JNumber m e | _ \<Rightarrow> JNull))
   \<and> submitted (handleProposeActivity browser isUnauthorizedError fetch tripId activity)
     = proposeRequest browser tripId activity"
proof -
  define wall where "wall = iso_date (toISOString (now_ms browser)) * msPerDay + timeOfDay 12 0"
  have noon: "wall mod msPerDay = timeOfDay 12 0"
    by (simp add: wall_def msPerDay_def timeOfDay_def)
  have start: "b_startTime (p_body (proposeRequest browser t a))
      = toISOString (wall - localOffset browser wall)" for t a
    by (simp add: proposeRequest_def Let_def newDateLocal_def wall_def)
  have "instantOf (b_startTime (p_body (proposeRequest browser tripId activity)))
      + localOffset browser wall = wall"
    by (simp add: start instantOf_toISOString)
  with noon have local_noon: "\<exists>wall. wall mod msPerDay = timeOfDay 12 0
       \<and> instantOf (b_startTime (p_body (proposeRequest browser tripId activity)))
           + localOffset browser wall = wall"
    by blast
  have same: "b_startTime (p_body (proposeRequest browser tripId activity))
     = b_startTime (p_body (proposeRequest browser tripId' activity'))"
    by (simp add: start)
  have sub: "submitted (handleProposeActivity browser isUnauthorizedError fetch tripId activity)
     = proposeRequest browser tripId activity"
    by (simp add: handleProposeActivity_def Let_def split: option.splits)
  have rest: "b_endTime (p_body (proposeRequest browser tripId activity)) = JNull
   \<and> b_maxCapacity (p_body (proposeRequest browser tripId activity)) = JNumber 10 0
   \<and> b_cost (p_body (proposeRequest browser tripId activity))
     = (if price activity = [] then JNull
        else (case parseFloat (price activity) of Decimal m e \<Rightarrow> JNumber m e | _ \<Rightarrow> JNull))"
    by (simp add: proposeRequest_def Let_def jsonNumber_cases)
  from local_noon same sub rest show ?thesis
    by blast
qed

end
